theory Spec2Isabelle
  imports Main "HOL-Library.Word"
begin

unbundle bit_operations_syntax

section \<open>The bootstrap loader of the Maxine VM (Native/substrate/maxine.c)\<close>

text \<open>
  The loader finds the directory of the running executable, loads the boot image
  \<open>maxine.vm\<close> from it, builds the primordial thread locals and the auxiliary space and
  calls the entry point of the image. The model follows the C source function by
  function. What the operating system and the other compilation units answer
  (\<open>readlink\<close>, \<open>realpath\<close>, \<open>getenv\<close>, \<open>image_load\<close>, \<open>alloca\<close>, \<open>malloc\<close>, \<open>close\<close>,
  \<open>dladdr\<close>, the code of the image) is an input of the model, the record \<open>world\<close>.
  The platform macros \<open>os_DARWIN\<close>, \<open>os_GUESTVMXEN\<close>, \<open>os_LINUX\<close>, \<open>os_SOLARIS\<close> and
  \<open>ENABLE_CARD_TABLE_VERIFICATION\<close> are the record \<open>build\<close>. The blocks under
  \<open>log_LOADER\<close> and \<open>log_LINKER\<close> only print; the model is the build with both off.
\<close>

subsection \<open>Machine types, messages and the answers of the environment\<close>

text \<open>
  \<open>Address\<close>, \<open>Size\<close> and \<open>Word\<close> are the machine words of word.h, which is not among the
  sources; the loader's own comment counts references as 64 bits wide, and the model
  takes 64-bit words. \<open>jint\<close> is Java's 32-bit integer, read as signed with \<open>sint\<close>.
\<close>

type_synonym Address = "64 word"
type_synonym Size = "64 word"
type_synonym jint = "32 word"
type_synonym byte = "8 word"
type_synonym memory = "Address \<Rightarrow> byte"

definition sizeof_Address :: Size where
  "sizeof_Address = 8"

text \<open>
  The fields of the image header that the loader reads (image.h is not among the
  sources). Each field is taken at the value it has once converted to \<open>Address\<close> or
  \<open>Size\<close>, the width at which the loader computes with it.
\<close>

record image_Header =
  vmRunMethodOffset :: Address
  vmThreadLocalsSize :: Size
  auxiliarySpaceSize :: Size

text \<open>
  What a successful \<open>image_load\<close> leaves behind: the file descriptor it returns, and the
  answers of \<open>image_header()\<close> and \<open>image_heap()\<close>.
\<close>

record image =
  image_fd :: int
  image_header :: image_Header
  image_heap :: Address

text \<open>The structure \<open>dladdr\<close> fills in; \<open>dli_sname\<close> is \<open>None\<close> for a NULL symbol name.\<close>

record Dl_info =
  dli_fname :: string
  dli_fbase :: Address
  dli_sname :: "string option"
  dli_saddr :: Address

text \<open>The messages the loader prints, each with the arguments of its format string.\<close>

datatype message =
    MustBeDefined string
  | CouldNotRead string
  | FailedToAllocate Size
  | CouldNotCloseImage
  | InModule string Address
  | InSymbol string Address string Address Address
  | TrapAt Address
  | ImageMessage string

text \<open>The two bridge functions whose addresses are handed to the entry point.\<close>

datatype native_fn = openDynamicLibrary | loadSymbol

text \<open>The seven arguments of \<open>VMRunMethod\<close>, in the order of the typedef.\<close>

record run_args =
  primordialVmThreadLocals :: Address
  bootHeapRegionStart :: Address
  auxiliarySpace :: Address
  openDynamicLibrary_arg :: native_fn
  dlsym_arg :: native_fn
  argc_arg :: int
  argv_arg :: "string list"

datatype event =
    Println message
  | ImageLoad string
  | MessengerInitialize
  | ThreadsInitialize
  | Alloca Size
  | Malloc Size
  | Memset Address byte Size
  | CallRun Address run_args memory
  | Close int

datatype outcome = Exited int | Returned jint | Overrun nat

datatype os = DARWIN | GUESTVMXEN | LINUX | SOLARIS

text \<open>
  A run of the loader stops early when the process exits with a status, or when an
  access leaves the character buffer it works on (undefined in C; the model stops there
  and records the index).
\<close>

datatype stop = ProcessExit int message | OutOfBounds nat

record build =
  target_os :: os
  ENABLE_CARD_TABLE_VERIFICATION :: bool

record world =
  getenv :: "string \<Rightarrow> string option"
  realpath_of :: "string \<Rightarrow> string option"
  readlink_of :: "string \<Rightarrow> string option"
  stack :: "char list"
  image_load :: "string \<Rightarrow> stop + image"
  memory0 :: memory
  alloca :: "Size \<Rightarrow> Address"
  malloc :: "Size \<Rightarrow> Address"
  code_at :: "Address \<Rightarrow> run_args \<Rightarrow> memory \<Rightarrow> jint"
  close :: "int \<Rightarrow> int"
  dladdr :: "Address \<Rightarrow> Dl_info option"

text \<open>
  \<open>stack\<close> is what the array \<open>imageFilePath\<close> of \<open>loadImage\<close> holds when the function is
  entered (C leaves it as the stack was), \<open>memory0\<close> the bytes of memory before the
  loader writes any, \<open>alloca\<close> and \<open>malloc\<close> the address each allocation returns for a
  size (\<open>malloc\<close> returns 0 when it fails), \<open>code_at\<close> the function found at an address of
  the image, \<open>close\<close> the status of closing a descriptor.
\<close>

subsection \<open>Paths in character buffers\<close>

definition NUL :: char where
  "NUL = CHR 0x00"

definition IMAGE_FILE_NAME :: string where
  "IMAGE_FILE_NAME = ''maxine.vm''"

text \<open>
  A buffer \<open>char result[MAX_PATH_LENGTH]\<close> is a list of that length; \<open>MAX_PATH_LENGTH\<close>
  (maxine.h) is the length of the list handed in. The C string held by a buffer ends
  before its first NUL.
\<close>

definition cstring :: "char list \<Rightarrow> string" where
  "cstring buf = takeWhile (\<lambda>c. c \<noteq> NUL) buf"

definition strlen :: "char list \<Rightarrow> stop + nat" where
  "strlen buf =
     (if NUL \<in> set buf then Inr (length (cstring buf)) else Inl (OutOfBounds (length buf)))"

text \<open>\<open>strcpy(buf + off, src)\<close>: the characters of \<open>src\<close> and the closing NUL.\<close>

definition strcpy_at :: "char list \<Rightarrow> nat \<Rightarrow> string \<Rightarrow> stop + char list" where
  "strcpy_at buf off src =
     (if off + length src + 1 \<le> length buf
      then Inr (take off buf @ src @ [NUL] @ drop (off + length src + 1) buf)
      else Inl (OutOfBounds (length buf)))"

text \<open>
  \<open>readlink(linkName, result, bufsiz)\<close> returns -1 when the link cannot be read;
  otherwise it places at most \<open>bufsiz\<close> bytes of the target in the buffer, appends no NUL
  and returns the number of bytes placed.
\<close>

definition readlink :: "(string \<Rightarrow> string option) \<Rightarrow> string \<Rightarrow> char list \<Rightarrow> nat \<Rightarrow> int \<times> char list" where
  "readlink links linkName buf bufsiz =
     (case links linkName of
        None \<Rightarrow> (- 1, buf)
      | Some target \<Rightarrow>
          (let k = min (length target) bufsiz
           in (int k, take k target @ drop k buf)))"

text \<open>
  \<open>realpath(path, result)\<close> returns NULL when the path cannot be resolved; otherwise it
  stores the resolved path and its closing NUL in the buffer.
\<close>

definition realpath :: "(string \<Rightarrow> string option) \<Rightarrow> string \<Rightarrow> char list \<Rightarrow> (stop + char list) option" where
  "realpath resolve path buf =
     (case resolve path of
        None \<Rightarrow> None
      | Some resolved \<Rightarrow> Some (strcpy_at buf 0 resolved))"

text \<open>
  The loop of \<open>getExecutablePath\<close> that chops off the name of the executable:
  \<^verbatim>\<open>for (p = result + numberOfChars; p >= result; p--) {
      if (*p == '/') { p[1] = 0; break; }
  }\<close>
  \<open>p\<close> is the index of the pointer in \<open>result\<close>; at index -1 the test \<open>p >= result\<close> fails
  and the loop ends. A read or a write at an index that is not in the buffer stops the
  run with \<open>OutOfBounds\<close>.
\<close>

function chop :: "char list \<Rightarrow> int \<Rightarrow> stop + char list" where
  "chop result p =
     (if 0 \<le> p then
        (if length result \<le> nat p then Inl (OutOfBounds (nat p))
         else if result ! nat p = CHR ''/'' then
           (if length result \<le> nat p + 1 then Inl (OutOfBounds (nat p + 1))
            else Inr (result[nat p + 1 := NUL]))
         else chop result (p - 1))
      else Inr result)"
  by pat_completeness auto
termination
  by (relation "measure (\<lambda>(result, p). nat (p + 1))") auto

declare chop.simps [simp del]

definition getExecutablePath :: "os \<Rightarrow> world \<Rightarrow> string \<Rightarrow> char list \<Rightarrow> stop + char list" where
  "getExecutablePath os w executablePath result =
     (case os of
        DARWIN \<Rightarrow>
          (case realpath (realpath_of w) executablePath result of
             None \<Rightarrow> Inl (ProcessExit 1 (CouldNotRead executablePath))
           | Some (Inl e) \<Rightarrow> Inl e
           | Some (Inr r) \<Rightarrow>
               (case strlen r of
                  Inl e \<Rightarrow> Inl e
                | Inr numberOfChars \<Rightarrow> chop r (int numberOfChars)))
      | GUESTVMXEN \<Rightarrow>
          (if result = [] then Inl (OutOfBounds 0) else Inr (result[0 := NUL]))
      | _ \<Rightarrow>
          (let linkName = (if os = LINUX then ''/proc/self/exe'' else ''/proc/self/path/a.out'');
               (numberOfChars, r) = readlink (readlink_of w) linkName result (length result)
           in if numberOfChars < 0 then Inl (ProcessExit 1 (CouldNotRead linkName)) else chop r numberOfChars))"

definition getImageFilePath :: "os \<Rightarrow> world \<Rightarrow> string \<Rightarrow> char list \<Rightarrow> stop + char list" where
  "getImageFilePath os w executablePath result =
     (if os = GUESTVMXEN then Inr result
      else
        (case getExecutablePath os w executablePath result of
           Inl e \<Rightarrow> Inl e
         | Inr r \<Rightarrow>
             (case strlen r of
                Inl e \<Rightarrow> Inl e
              | Inr n \<Rightarrow> strcpy_at r n IMAGE_FILE_NAME)))"

subsection \<open>Memory\<close>

text \<open>
  Modelled from the spec: \<open>wordAlign\<close>, a macro of word.h, which is not among the sources.
  The spec has it align the base address up to the next machine-word boundary.
\<close>

definition wordAlign :: "Address \<Rightarrow> Address" where
  "wordAlign a = (a + (sizeof_Address - 1)) AND NOT (sizeof_Address - 1)"

text \<open>
  Memory is a byte at every address. \<open>memset(s, c, n)\<close> stores \<open>c\<close> in the \<open>n\<close> bytes from \<open>s\<close> on, one after the other.
\<close>

definition memset :: "memory \<Rightarrow> Address \<Rightarrow> byte \<Rightarrow> Size \<Rightarrow> memory" where
  "memset m s c n = fold (\<lambda>i m'. m'(s + of_nat i := c)) [0..<unat n] m"

definition REFERENCE_BUFFER_SIZE :: "build \<Rightarrow> Size" where
  "REFERENCE_BUFFER_SIZE b =
     (if ENABLE_CARD_TABLE_VERIFICATION b then 1024 * 1024 * 1024 else 0)"

subsection \<open>The loader\<close>

text \<open>
  Modelled from the spec: \<open>log_exit\<close> of log.c, which is not among the sources. It prints
  the message and ends the process with the status it is given.
\<close>

definition log_exit :: "int \<Rightarrow> message \<Rightarrow> event list \<times> outcome" where
  "log_exit code msg = ([Println msg], Exited code)"

text \<open>
  How a run that stopped early ends: a fatal exit prints its message and gives its
  status; an access outside a buffer ends the run as \<open>Overrun\<close>. \<open>after es r\<close> puts the
  events \<open>es\<close> before those of \<open>r\<close>.
\<close>

fun stopped :: "stop \<Rightarrow> event list \<times> outcome" where
  "stopped (ProcessExit code msg) = ([Println msg], Exited code)"
| "stopped (OutOfBounds i) = ([], Overrun i)"

definition after :: "event list \<Rightarrow> event list \<times> outcome \<Rightarrow> event list \<times> outcome" where
  "after es r = (es @ fst r, snd r)"

text \<open>
  \<open>loadImage\<close> works in its own array \<open>imageFilePath\<close> and hands the C string in it to
  \<open>image_load\<close>, which either ends the process or returns the loaded image.
\<close>

definition loadImage :: "os \<Rightarrow> world \<Rightarrow> string \<Rightarrow> event list \<times> (stop + image)" where
  "loadImage os w executablePath =
     (case getImageFilePath os w executablePath (stack w) of
        Inl e \<Rightarrow> ([], Inl e)
      | Inr imageFilePath \<Rightarrow>
          ([ImageLoad (cstring imageFilePath)], image_load w (cstring imageFilePath)))"

text \<open>
  \<open>maxine\<close> returns the events of the run in their order and how the run ends. The
  entry call is the event \<open>CallRun\<close>: the address called, the seven arguments and the
  memory as the loader has left it at that moment.
\<close>

definition maxine :: "build \<Rightarrow> world \<Rightarrow> int \<Rightarrow> string list \<Rightarrow> string \<Rightarrow> event list \<times> outcome" where
  "maxine b w argc argv executablePath =
     (if target_os b = DARWIN \<and> getenv w ''DYLD_FORCE_FLAT_NAMESPACE'' = None then
        log_exit 11 (MustBeDefined ''DYLD_FORCE_FLAT_NAMESPACE'')
      else
        (case loadImage (target_os b) w executablePath of
           (es0, Inl e) \<Rightarrow> after es0 (stopped e)
         | (es0, Inr img) \<Rightarrow>
             (let fd = image_fd img;
                  header = image_header img;
                  method = image_heap img + vmRunMethodOffset header;
                  allocated = alloca w (vmThreadLocalsSize header + sizeof_Address);
                  primordial = wordAlign allocated;
                  m1 = memset (memory0 w) primordial 0 (vmThreadLocalsSize header);
                  es1 = es0 @ [MessengerInitialize, ThreadsInitialize,
                               Alloca (vmThreadLocalsSize header + sizeof_Address),
                               Memset primordial 0 (vmThreadLocalsSize header)];
                  auxSize = auxiliarySpaceSize header + REFERENCE_BUFFER_SIZE b
              in
                (case (if auxSize \<noteq> 0 then
                         (let aux = malloc w auxSize
                          in if aux = 0 then Inl (FailedToAllocate auxSize)
                             else Inr (aux, memset m1 aux 1 auxSize,
                                       [Malloc auxSize, Memset aux 1 auxSize]))
                       else Inr (0, m1, [])) of
                   Inl msg \<Rightarrow> after (es1 @ [Malloc auxSize]) (log_exit 1 msg)
                 | Inr (aux, m2, es2) \<Rightarrow>
                     (let args = \<lparr> primordialVmThreadLocals = primordial,
                                   bootHeapRegionStart = image_heap img,
                                   auxiliarySpace = aux,
                                   openDynamicLibrary_arg = openDynamicLibrary,
                                   dlsym_arg = loadSymbol,
                                   argc_arg = argc,
                                   argv_arg = argv \<rparr>;
                          exitCode = code_at w method args m2;
                          es3 = es1 @ es2 @ [CallRun method args m2];
                          es4 = (if 0 < fd then
                                   (let error = close w fd
                                    in if error \<noteq> 0 then [Close fd, Println CouldNotCloseImage]
                                       else [Close fd])
                                 else [])
                      in (es3 @ es4, Returned exitCode))))))"

text \<open>The natives that the managed code calls back.\<close>

definition native_executablePath :: "os \<Rightarrow> world \<Rightarrow> string \<Rightarrow> char list \<Rightarrow> stop + char list" where
  "native_executablePath os w executablePath result = getExecutablePath os w executablePath result"

definition native_exit :: "jint \<Rightarrow> event list \<times> outcome" where
  "native_exit code = ([], Exited (sint code))"

definition native_trap_exit :: "world \<Rightarrow> int \<Rightarrow> Address \<Rightarrow> event list \<times> outcome" where
  "native_trap_exit w code address =
     after
       (case dladdr w address of
          None \<Rightarrow> []
        | Some info \<Rightarrow>
            (case dli_sname info of
               None \<Rightarrow> [Println (InModule (dli_fname info) (dli_fbase info))]
             | Some sname \<Rightarrow>
                 [Println (InSymbol (dli_fname info) (dli_fbase info) sname (dli_saddr info)
                            (address - dli_saddr info))]))
       (log_exit code (TrapAt address))"

subsection \<open>Reading a run\<close>

text \<open>The entry call of a run, when the run reaches it.\<close>

fun entry_call :: "event list \<Rightarrow> (Address \<times> run_args \<times> memory) option" where
  "entry_call [] = None"
| "entry_call (CallRun method args m # es) = Some (method, args, m)"
| "entry_call (e # es) = entry_call es"

fun after_entry :: "event list \<Rightarrow> event list" where
  "after_entry [] = []"
| "after_entry (CallRun method args m # es) = es"
| "after_entry (e # es) = after_entry es"

fun is_CallRun :: "event \<Rightarrow> bool" where
  "is_CallRun (CallRun method args m) = True"
| "is_CallRun e = False"

text \<open>
  The byte found, at the entry call, at an offset from the primordial thread locals
  handed over, and at an offset from the auxiliary space handed over.
\<close>

definition primordial_byte :: "event list \<Rightarrow> Address \<Rightarrow> byte option" where
  "primordial_byte es off =
     (case entry_call es of
        None \<Rightarrow> None
      | Some (method, args, m) \<Rightarrow> Some (m (primordialVmThreadLocals args + off)))"

definition auxiliary_byte :: "event list \<Rightarrow> Address \<Rightarrow> byte option" where
  "auxiliary_byte es off =
     (case entry_call es of
        None \<Rightarrow> None
      | Some (method, args, m) \<Rightarrow> Some (m (auxiliarySpace args + off)))"

subsection \<open>Example inputs\<close>

definition example_image :: "Size \<Rightarrow> Size \<Rightarrow> int \<Rightarrow> image" where
  "example_image tsize asize fd =
     \<lparr> image_fd = fd,
       image_header = \<lparr> vmRunMethodOffset = 0x100, vmThreadLocalsSize = tsize,
                        auxiliarySpaceSize = asize \<rparr>,
       image_heap = 0x400000 \<rparr>"

text \<open>
  A world in which the executable is \<open>/opt/app/bin/x\<close>, the image beside it loads, memory
  starts out as the byte 0xAA everywhere, the entry point returns -5 and closing the
  image file fails.
\<close>

definition example_world :: "image \<Rightarrow> world" where
  "example_world img =
     \<lparr> getenv = (\<lambda>name. if name = ''DYLD_FORCE_FLAT_NAMESPACE'' then Some ''1'' else None),
       realpath_of = (\<lambda>path. Some ''/opt/app/bin/x''),
       readlink_of = (\<lambda>linkName. Some ''/opt/app/bin/x''),
       stack = ''################################'',
       image_load = (\<lambda>path. if path = ''/opt/app/bin/maxine.vm'' then Inr img
                            else Inl (ProcessExit 2 (ImageMessage path))),
       memory0 = (\<lambda>a. 0xAA),
       alloca = (\<lambda>n. 0x7FFF0003),
       malloc = (\<lambda>n. 0x1000),
       code_at = (\<lambda>a args m. if a = 0x400100 then - 5 else 0),
       close = (\<lambda>fd. - 1),
       dladdr = (\<lambda>a. if a = 0x500010
                      then Some \<lparr> dli_fname = ''libjvm.so'', dli_fbase = 0x500000,
                                  dli_sname = Some ''JVM_Halt'', dli_saddr = 0x500008 \<rparr>
                      else None) \<rparr>"

definition linux :: build where
  "linux = \<lparr> target_os = LINUX, ENABLE_CARD_TABLE_VERIFICATION = False \<rparr>"

definition darwin :: build where
  "darwin = \<lparr> target_os = DARWIN, ENABLE_CARD_TABLE_VERIFICATION = False \<rparr>"

section \<open>Properties\<close>

subsection \<open>The path of the image file\<close>

lemmas path_defs = getImageFilePath_def getExecutablePath_def readlink_def realpath_def
  strlen_def cstring_def NUL_def strcpy_at_def IMAGE_FILE_NAME_def loadImage_def

text \<open>
  The scan starts at \<open>result + numberOfChars\<close>, the byte after the last one of the path.
  After \<open>realpath\<close> that byte is the closing NUL. After \<open>readlink\<close>, which writes no NUL,
  it is whatever the buffer held before; when \<open>readlink\<close> has filled the buffer it is the
  byte behind the buffer.
\<close>

lemma chop_at_end: "chop result (int (length result)) = Inl (OutOfBounds (length result))"
  by (simp add: chop.simps)

lemma chop_in_bounds: "nat p + 1 < length result \<Longrightarrow> \<exists>r. chop result p = Inr r"
proof (induction result p rule: chop.induct)
  case (1 result p)
  show ?case
  proof (cases "0 \<le> p \<and> result ! nat p \<noteq> CHR ''/''")
    case True
    with 1 have "\<exists>r. chop result (p - 1) = Inr r" by auto
    with True 1 show ?thesis by (subst chop.simps) auto
  next
    case False
    with 1 show ?thesis by (subst chop.simps) auto
  qed
qed

lemma chop_no_separator:
  "CHR ''/'' \<notin> set result \<Longrightarrow> p < int (length result) \<Longrightarrow> chop result p = Inr result"
proof (induction result p rule: chop.induct)
  case (1 result p)
  show ?case
  proof (cases "0 \<le> p")
    case True
    with 1 have "result ! nat p \<noteq> CHR ''/''" by (metis nth_mem nat_less_iff)
    with True 1 show ?thesis by (subst chop.simps) auto
  next
    case False
    then show ?thesis by (subst chop.simps) auto
  qed
qed

lemma full_buffer_overrun:
  assumes os: "os = LINUX \<or> os = SOLARIS"
    and link: "readlink_of w (if os = LINUX then ''/proc/self/exe'' else ''/proc/self/path/a.out'')
                 = Some target"
    and long: "length result \<le> length target"
  shows "getExecutablePath os w exe result = Inl (OutOfBounds (length result))"
proof -
  let ?name = "if os = LINUX then ''/proc/self/exe'' else ''/proc/self/path/a.out''"
  let ?r = "take (length result) target"
  have rd: "readlink (readlink_of w) ?name result (length result) = (int (length result), ?r)"
    using link long by (simp add: readlink_def min_def Let_def)
  have len: "length ?r = length result"
    using long by simp
  have "chop ?r (int (length ?r)) = Inl (OutOfBounds (length ?r))"
    by (rule chop_at_end)
  then have "chop ?r (int (length result)) = Inl (OutOfBounds (length result))"
    by (simp only: len)
  with os rd show ?thesis
    by (auto simp: getExecutablePath_def)
qed

lemma chop_example:
  "c \<noteq> CHR ''/'' \<Longrightarrow>
     chop (''/opt/app/bin/x'' @ c # rest) 14 = Inr (''/opt/app/bin/'' @ NUL # c # rest)"
  by (simp add: chop.simps)

lemma strlen_example: "strlen (''/opt/app/bin/'' @ NUL # rest) = Inr 13"
  by (simp add: strlen_def cstring_def NUL_def)

lemma strcpy_example:
  assumes "9 \<le> length rest"
  shows "\<exists>r. strcpy_at (''/opt/app/bin/'' @ NUL # rest) 13 IMAGE_FILE_NAME = Inr r
            \<and> cstring r = ''/opt/app/bin/maxine.vm''"
  using assms by (simp add: cstring_def strcpy_at_def IMAGE_FILE_NAME_def NUL_def)

lemma image_path_of_directory:
  assumes os: "os \<noteq> GUESTVMXEN"
    and exe: "getExecutablePath os w exe (stack w) = Inr (''/opt/app/bin/'' @ NUL # rest)"
    and rest: "9 \<le> length rest"
  shows "fst (loadImage os w exe) = [ImageLoad ''/opt/app/bin/maxine.vm'']"
proof -
  define d where "d = ''/opt/app/bin/'' @ NUL # rest"
  from strcpy_example [OF rest] obtain r
    where cp: "strcpy_at d 13 IMAGE_FILE_NAME = Inr r"
      and r: "cstring r = ''/opt/app/bin/maxine.vm''"
    unfolding d_def by blast
  have sl: "strlen d = Inr 13"
    unfolding d_def by (rule strlen_example)
  have "getExecutablePath os w exe (stack w) = Inr d"
    unfolding d_def by (rule exe)
  with os sl cp have "getImageFilePath os w exe (stack w) = Inr r"
    by (simp add: getImageFilePath_def)
  with r show ?thesis
    by (simp add: loadImage_def)
qed

lemma split_at_14:
  assumes "23 \<le> length buf"
  shows "\<exists>pre c rest. buf = pre @ c # rest \<and> length pre = 14 \<and> c = buf ! 14 \<and> 8 \<le> length rest"
proof -
  from assms have "14 < length buf" by simp
  then have "buf = take 14 buf @ buf ! 14 # drop (Suc 14) buf"
    by (rule id_take_nth_drop)
  moreover have "length (take 14 buf) = 14" using assms by simp
  moreover have "8 \<le> length (drop (Suc 14) buf)" using assms by simp
  ultimately show ?thesis by blast
qed

lemma image_path_after_readlink:
  assumes os: "os = LINUX \<or> os = SOLARIS"
    and link: "readlink_of w (if os = LINUX then ''/proc/self/exe'' else ''/proc/self/path/a.out'')
           = Some ''/opt/app/bin/x''"
    and len: "23 \<le> length (stack w)"
    and clean: "stack w ! 14 \<noteq> CHR ''/''"
  shows "fst (loadImage os w exe) = [ImageLoad ''/opt/app/bin/maxine.vm'']"
proof -
  let ?name = "if os = LINUX then ''/proc/self/exe'' else ''/proc/self/path/a.out''"
  from split_at_14 [OF len] obtain pre c rest
    where buf: "stack w = pre @ c # rest" and pre: "length pre = 14"
      and c: "c = stack w ! 14" and rest: "8 \<le> length rest"
    by blast
  have rd: "readlink (readlink_of w) ?name (stack w) (length (stack w))
              = (14, ''/opt/app/bin/x'' @ c # rest)"
    using link len by (simp add: readlink_def min_def buf pre)
  have "chop (''/opt/app/bin/x'' @ c # rest) 14 = Inr (''/opt/app/bin/'' @ NUL # c # rest)"
    using clean c by (intro chop_example) simp
  with os rd have "getExecutablePath os w exe (stack w) = Inr (''/opt/app/bin/'' @ NUL # c # rest)"
    by (auto simp: getExecutablePath_def)
  moreover have "9 \<le> length (c # rest)"
    using rest by simp
  moreover have "os \<noteq> GUESTVMXEN"
    using os by auto
  ultimately show ?thesis
    by (intro image_path_of_directory)
qed

lemma image_path_after_realpath:
  assumes path: "realpath_of w exe = Some ''/opt/app/bin/x''"
    and len: "23 \<le> length (stack w)"
  shows "fst (loadImage DARWIN w exe) = [ImageLoad ''/opt/app/bin/maxine.vm'']"
proof -
  define rest where "rest = drop 15 (stack w)"
  have rest: "8 \<le> length rest" using len by (simp add: rest_def)
  have rp: "realpath (realpath_of w) exe (stack w) = Some (Inr (''/opt/app/bin/x'' @ NUL # rest))"
    using path len by (simp add: realpath_def strcpy_at_def rest_def eval_nat_numeral)
  have sl: "strlen (''/opt/app/bin/x'' @ NUL # rest) = Inr 14"
    by (simp add: strlen_def cstring_def NUL_def)
  have "chop (''/opt/app/bin/x'' @ NUL # rest) 14 = Inr (''/opt/app/bin/'' @ NUL # NUL # rest)"
    by (intro chop_example) (simp add: NUL_def)
  with rp sl have "getExecutablePath DARWIN w exe (stack w) = Inr (''/opt/app/bin/'' @ NUL # NUL # rest)"
    by (simp add: getExecutablePath_def)
  moreover have "9 \<le> length (NUL # rest)"
    using rest by simp
  ultimately show ?thesis
    by (intro image_path_of_directory) simp
qed

text \<open>
  C7. For the executable \<open>/opt/app/bin/x\<close> the directory should be \<open>/opt/app/bin/\<close> and the
  image path \<open>/opt/app/bin/maxine.vm\<close>. On Linux, when the array \<open>imageFilePath\<close> happens to
  hold a \<open>/\<close> at index 14, just behind the 14 bytes \<open>readlink\<close> writes, the scan stops there
  at once: the name of the executable is not chopped off and the path handed to
  \<open>image_load\<close> is \<open>/opt/app/bin/x/maxine.vm\<close>.
\<close>

theorem image_path_with_stale_separator:
  "fst (loadImage LINUX
          ((example_world (example_image 16 4 3))\<lparr> stack := ''##############/#################'' \<rparr>)
          ''x'')
     = [ImageLoad ''/opt/app/bin/x/maxine.vm'']"
  by (simp add: path_defs example_world_def chop.simps)

text \<open>
  C8. The backward scan should touch only bytes of the result buffer. With a buffer of
  8 bytes and the 14-byte link target \<open>/opt/app/bin/x\<close>, \<open>readlink\<close> fills the buffer and
  returns 8; the first byte the scan reads is \<open>result[8]\<close>, one behind the buffer.
\<close>

theorem scan_reads_behind_full_buffer:
  "getExecutablePath LINUX (example_world (example_image 16 4 3)) ''x'' ''########''
     = Inl (OutOfBounds 8)"
  by (simp add: getExecutablePath_def readlink_def example_world_def chop.simps)

subsection \<open>Memory and alignment\<close>

lemma fold_store:
  "fold (\<lambda>i m'. m'(s + of_nat i := c)) [0..<k] m x =
     (if \<exists>i<k. x = s + of_nat i then c else m x)"
proof (induction k)
  case 0
  show ?case by simp
next
  case (Suc k)
  show ?case
    using Suc.IH by (auto simp: less_Suc_eq)
qed

lemma offset_in_range:
  fixes x s n :: "'a::len word"
  shows "(\<exists>i<unat n. x = s + of_nat i) \<longleftrightarrow> x - s < n"
proof
  assume "\<exists>i<unat n. x = s + of_nat i"
  then obtain i where i: "i < unat n" and x: "x = s + of_nat i" by blast
  have "unat (of_nat i :: 'a word) \<le> i"
    by (simp add: unat_of_nat)
  with i have "(of_nat i :: 'a word) < n"
    by (simp add: word_less_nat_alt)
  with x show "x - s < n" by simp
next
  assume "x - s < n"
  then have "unat (x - s) < unat n" by (simp add: word_less_nat_alt)
  moreover have "x = s + of_nat (unat (x - s))" by simp
  ultimately show "\<exists>i<unat n. x = s + of_nat i" by blast
qed

lemma memset_at: "memset m s c n x = (if x - s < n then c else m x)"
  unfolding memset_def fold_store offset_in_range ..

lemma wordAlign_aligned: "wordAlign a AND 7 = 0"
  by (simp add: wordAlign_def sizeof_Address_def word_bw_assocs)

lemma split_low:
  fixes y :: "64 word"
  shows "(y AND NOT 7) + (y AND 7) = y"
proof -
  have "(y AND NOT 7) AND (y AND 7) = 0"
    by (simp add: word_bw_assocs word_bw_lcs)
  moreover have "(y AND NOT 7) OR (y AND 7) = y"
    by (simp flip: bit.conj_disj_distrib)
  ultimately show ?thesis
    using word_plus_and_or [of "y AND NOT 7" "y AND 7"] by simp
qed

lemma wordAlign_distance: "wordAlign a - a \<le> 7"
proof -
  let ?y = "a + 7"
  have "wordAlign a = ?y - (?y AND 7)"
    using split_low [of ?y] by (simp add: wordAlign_def sizeof_Address_def algebra_simps)
  then have eq: "wordAlign a - a = 7 - (?y AND 7)"
    by simp
  have "?y AND 7 \<le> 7"
    by (rule word_and_le1)
  then have "7 - (?y AND 7) \<le> 7"
    by (rule word_sub_le)
  with eq show ?thesis by simp
qed

lemma wordAlign_id:
  assumes "n AND 7 = 0"
  shows "wordAlign n = n"
proof -
  have "n + 7 = n OR 7"
    using assms by (simp add: disjunctive_add_eq_or)
  then have "wordAlign n = (n OR 7) AND NOT 7"
    by (simp add: wordAlign_def sizeof_Address_def)
  also have "\<dots> = n AND NOT 7"
    by (simp add: bit.conj_disj_distrib2)
  also have "\<dots> = n"
    using split_low [of n] assms by simp
  finally show ?thesis .
qed

lemma within_allocation:
  fixes x p a n :: "64 word"
  assumes "x - p < n" and "p - a \<le> 7" and "unat n + 8 < 2 ^ 64"
  shows "x - a < n + 8"
proof -
  have le: "unat (u + v) \<le> unat u + unat v" for u v :: "64 word"
    by (simp add: unat_word_ariths)
  have 1: "unat (x - p) < unat n" using assms(1) by (simp add: word_less_nat_alt)
  have 2: "unat (p - a) \<le> 7" using assms(2) by (simp add: word_le_nat_alt)
  have "unat (x - a) \<le> unat (x - p) + unat (p - a)"
    using le [of "x - p" "p - a"] by simp
  with 1 2 have 3: "unat (x - a) < unat n + 8" by arith
  have "unat (n + 8) = unat n + 8"
    using assms(3) by (simp add: unat_word_ariths)
  with 3 show ?thesis by (simp add: word_less_nat_alt)
qed

subsection \<open>The run up to the entry call\<close>

lemma loadImage_events:
  assumes "loadImage os w exe = (es0, r)"
  shows "es0 = [] \<or> (\<exists>path. es0 = [ImageLoad path])"
  using assms by (auto simp: loadImage_def split: sum.splits)

lemma entry_call_append:
  "entry_call es = None \<Longrightarrow> entry_call (es @ es') = entry_call es'"
  by (induction es rule: entry_call.induct) auto

lemma after_entry_append:
  "entry_call es = None \<Longrightarrow> after_entry (es @ es') = after_entry es'"
  by (induction es rule: entry_call.induct) auto

lemma entry_call_stopped: "entry_call (fst (stopped e)) = None"
  by (cases e) auto

lemma entry_reached:
  assumes run: "entry_call (fst (maxine b w argc argv exe)) = Some (method, args, m)"
    and load: "loadImage (target_os b) w exe = (es0, Inr img)"
  defines "tsize \<equiv> vmThreadLocalsSize (image_header img)"
    and "auxSize \<equiv> auxiliarySpaceSize (image_header img) + REFERENCE_BUFFER_SIZE b"
  defines "primordial \<equiv> wordAlign (alloca w (tsize + sizeof_Address))"
    and "aux \<equiv> (if auxSize \<noteq> 0 then malloc w auxSize else 0)"
  defines "m1 \<equiv> memset (memory0 w) primordial 0 tsize"
    and "closing \<equiv> (if 0 < image_fd img
                      then (if close w (image_fd img) \<noteq> 0
                            then [Close (image_fd img), Println CouldNotCloseImage]
                            else [Close (image_fd img)])
                      else [])"
  shows "method = image_heap img + vmRunMethodOffset (image_header img)"
    and "args = \<lparr> primordialVmThreadLocals = primordial,
                  bootHeapRegionStart = image_heap img,
                  auxiliarySpace = aux,
                  openDynamicLibrary_arg = openDynamicLibrary,
                  dlsym_arg = loadSymbol,
                  argc_arg = argc,
                  argv_arg = argv \<rparr>"
    and "m = (if auxSize \<noteq> 0 then memset m1 aux 1 auxSize else m1)"
    and "auxSize \<noteq> 0 \<longrightarrow> malloc w auxSize \<noteq> 0"
    and "fst (maxine b w argc argv exe) =
           es0 @ [MessengerInitialize, ThreadsInitialize, Alloca (tsize + sizeof_Address),
                  Memset primordial 0 tsize]
               @ (if auxSize \<noteq> 0 then [Malloc auxSize, Memset aux 1 auxSize] else [])
               @ [CallRun method args m] @ closing"
    and "snd (maxine b w argc argv exe) = Returned (code_at w method args m)"
proof -
  have es0: "entry_call es0 = None"
    using loadImage_events [OF load] by auto
  have env: "\<not> (target_os b = DARWIN \<and> getenv w ''DYLD_FORCE_FLAT_NAMESPACE'' = None)"
    using run by (auto simp: maxine_def log_exit_def split: if_splits)
  have ok: "auxSize \<noteq> 0 \<longrightarrow> malloc w auxSize \<noteq> 0"
    using run env load es0
    by (auto simp: maxine_def log_exit_def after_def Let_def entry_call_append
        auxSize_def tsize_def split: if_splits)
  have all: "method = image_heap img + vmRunMethodOffset (image_header img)
      \<and> args = \<lparr> primordialVmThreadLocals = primordial,
                  bootHeapRegionStart = image_heap img,
                  auxiliarySpace = aux,
                  openDynamicLibrary_arg = openDynamicLibrary,
                  dlsym_arg = loadSymbol,
                  argc_arg = argc,
                  argv_arg = argv \<rparr>
      \<and> m = (if auxSize \<noteq> 0 then memset m1 aux 1 auxSize else m1)"
    using run env load es0 ok
    by (auto simp: maxine_def after_def Let_def entry_call_append
        auxSize_def tsize_def primordial_def aux_def m1_def  split: if_splits)
  then show "method = image_heap img + vmRunMethodOffset (image_header img)"
    and "args = \<lparr> primordialVmThreadLocals = primordial,
                  bootHeapRegionStart = image_heap img,
                  auxiliarySpace = aux,
                  openDynamicLibrary_arg = openDynamicLibrary,
                  dlsym_arg = loadSymbol,
                  argc_arg = argc,
                  argv_arg = argv \<rparr>"
    and "m = (if auxSize \<noteq> 0 then memset m1 aux 1 auxSize else m1)"
    by simp_all
  show "auxSize \<noteq> 0 \<longrightarrow> malloc w auxSize \<noteq> 0" by (rule ok)
  show "fst (maxine b w argc argv exe) =
           es0 @ [MessengerInitialize, ThreadsInitialize, Alloca (tsize + sizeof_Address),
                  Memset primordial 0 tsize]
               @ (if auxSize \<noteq> 0 then [Malloc auxSize, Memset aux 1 auxSize] else [])
               @ [CallRun method args m] @ closing"
    using env load ok all
    by (auto simp: maxine_def after_def Let_def
        auxSize_def tsize_def primordial_def aux_def m1_def closing_def)
  show "snd (maxine b w argc argv exe) = Returned (code_at w method args m)"
    using env load ok all
    by (auto simp: maxine_def after_def Let_def
        auxSize_def tsize_def primordial_def aux_def m1_def)
qed


subsection \<open>The example run\<close>

lemma example_load:
  "loadImage LINUX (example_world img) exe = ([ImageLoad ''/opt/app/bin/maxine.vm''], Inr img)"
  by (simp add: path_defs example_world_def chop.simps)

lemma example_align: "wordAlign 0x7FFF0003 = 0x7FFF0008"
  by (simp add: wordAlign_def sizeof_Address_def)

lemma example_entry:
  "a \<noteq> 0 \<Longrightarrow>
   entry_call (fst (maxine linux (example_world (example_image t a fd)) argc argv exe)) =
     Some (0x400100,
           \<lparr> primordialVmThreadLocals = 0x7FFF0008, bootHeapRegionStart = 0x400000,
             auxiliarySpace = 0x1000, openDynamicLibrary_arg = openDynamicLibrary,
             dlsym_arg = loadSymbol, argc_arg = argc, argv_arg = argv \<rparr>,
           memset (memset (\<lambda>a. 0xAA) 0x7FFF0008 0 t) 0x1000 1 a)"
  by (simp add: maxine_def linux_def example_load Let_def REFERENCE_BUFFER_SIZE_def)
     (simp add: example_world_def example_image_def example_align)

lemma example_apart: "\<forall>x::64 word. x - 0x7FFF0003 < 24 \<longrightarrow> \<not> x - 0x1000 < 4"
proof (intro allI impI)
  fix x :: "64 word"
  assume "x - 0x7FFF0003 < 24"
  then have "unat (x - 0x7FFF0003) < 24" by (simp add: word_less_nat_alt)
  then show "\<not> x - 0x1000 < 4"
    by (simp add: word_less_nat_alt unat_sub_if_size word_size split: if_splits) 
qed

lemma example_entry_no_aux:
  "entry_call (fst (maxine linux (example_world (example_image t 0 fd)) argc argv exe)) =
     Some (0x400100,
           \<lparr> primordialVmThreadLocals = 0x7FFF0008, bootHeapRegionStart = 0x400000,
             auxiliarySpace = 0, openDynamicLibrary_arg = openDynamicLibrary,
             dlsym_arg = loadSymbol, argc_arg = argc, argv_arg = argv \<rparr>,
           memset (\<lambda>a. 0xAA) 0x7FFF0008 0 t)"
  by (simp add: maxine_def linux_def example_load Let_def REFERENCE_BUFFER_SIZE_def)
     (simp add: example_world_def example_image_def example_align)

lemma example_entry_of:
  "auxiliarySpaceSize (image_header img) \<noteq> 0 \<Longrightarrow>
   entry_call (fst (maxine linux (example_world img) argc argv exe)) =
     Some (image_heap img + vmRunMethodOffset (image_header img),
           \<lparr> primordialVmThreadLocals = 0x7FFF0008, bootHeapRegionStart = image_heap img,
             auxiliarySpace = 0x1000, openDynamicLibrary_arg = openDynamicLibrary,
             dlsym_arg = loadSymbol, argc_arg = argc, argv_arg = argv \<rparr>,
           memset (memset (\<lambda>a. 0xAA) 0x7FFF0008 0 (vmThreadLocalsSize (image_header img)))
             0x1000 1 (auxiliarySpaceSize (image_header img)))"
  by (simp add: maxine_def linux_def example_load Let_def REFERENCE_BUFFER_SIZE_def)
     (simp add: example_world_def example_align)

subsection \<open>The primordial thread locals\<close>

text \<open>
  C2, as amended. When the run reaches the entry call, for a header whose
  \<open>vmThreadLocalsSize\<close> plus one word does not wrap around and a \<open>malloc\<close> that keeps
  its block apart from the block taken from the stack: the primordial region handed to
  the entry call is word-aligned; the block taken from the stack is
  \<open>vmThreadLocalsSize\<close> plus one word; the region that is zero-filled has exactly
  \<open>vmThreadLocalsSize\<close> bytes, each of them zero at the entry call and each inside the
  block; and that size is its own round-up when it is a multiple of the word size.
\<close>

theorem primordial_region_zero_filled:
  assumes run: "entry_call (fst (maxine b w argc argv exe)) = Some (method, args, m)"
    and load: "loadImage (target_os b) w exe = (es0, Inr img)"
    and tsize: "tsize = vmThreadLocalsSize (image_header img)"
    and auxSize: "auxSize = auxiliarySpaceSize (image_header img) + REFERENCE_BUFFER_SIZE b"
    and nowrap: "unat tsize + 8 < 2 ^ 64"
    and apart: "\<forall>x. x - alloca w (tsize + sizeof_Address) < tsize + sizeof_Address
                  \<longrightarrow> \<not> x - malloc w auxSize < auxSize"
  shows "primordialVmThreadLocals args AND 7 = 0
       \<and> Alloca (tsize + sizeof_Address) \<in> set (fst (maxine b w argc argv exe))
       \<and> (\<forall>n. Memset (primordialVmThreadLocals args) 0 n \<in> set (fst (maxine b w argc argv exe))
                \<longleftrightarrow> n = tsize)
       \<and> (\<forall>x. x - primordialVmThreadLocals args < tsize
                \<longrightarrow> m x = 0 \<and> x - alloca w (tsize + sizeof_Address) < tsize + sizeof_Address)
       \<and> (tsize AND 7 = 0 \<longrightarrow> wordAlign tsize = tsize)"
proof -
  note facts = entry_reached [OF run load, folded tsize auxSize]
  let ?a = "alloca w (tsize + sizeof_Address)"
  let ?p = "primordialVmThreadLocals args"
  have p: "?p = wordAlign ?a"
    by (simp add: facts(2))
  have aligned: "?p AND 7 = 0"
    unfolding p by (rule wordAlign_aligned)
  have inside: "x - ?a < tsize + sizeof_Address" if "x - ?p < tsize" for x
    using that wordAlign_distance [of ?a] nowrap
    unfolding p sizeof_Address_def by (rule within_allocation)
  have zero: "m x = 0" if "x - ?p < tsize" for x
  proof -
    have "\<not> x - malloc w auxSize < auxSize"
      using apart inside [OF that] by blast
    with that show ?thesis
      by (simp add: facts(3) facts(2) memset_at)
  qed
  have events: "Alloca (tsize + sizeof_Address) \<in> set (fst (maxine b w argc argv exe))"
    by (simp add: facts(5))
  have memsets: "Memset ?p 0 n \<in> set (fst (maxine b w argc argv exe)) \<longleftrightarrow> n = tsize" for n
    using loadImage_events [OF load] by (auto simp: facts(5) facts(2))
  from aligned events memsets zero inside wordAlign_id show ?thesis
    by blast
qed


text \<open>
  The amended C2 at the example run with 16 bytes of thread locals and 4 bytes of
  auxiliary space: the byte at offset 15 of the region is zero at the entry call.
\<close>

theorem primordial_region_zero_filled_witness:
  "loadImage (target_os linux) (example_world (example_image 16 4 3)) ''x''
     = ([ImageLoad ''/opt/app/bin/maxine.vm''], Inr (example_image 16 4 3))
   \<and> unat (16 :: Size) + 8 < 2 ^ 64
   \<and> primordial_byte (fst (maxine linux (example_world (example_image 16 4 3)) 1 [''x''] ''x'')) 15
       = Some 0
   \<and> Memset 0x7FFF0008 0 16
       \<in> set (fst (maxine linux (example_world (example_image 16 4 3)) 1 [''x''] ''x''))
   \<and> wordAlign 16 = 16"
proof -
  let ?w = "example_world (example_image 16 4 3)"
  let ?m = "memset (memset (\<lambda>a. 0xAA) 0x7FFF0008 0 16) 0x1000 1 4"
  let ?args = "\<lparr> primordialVmThreadLocals = 0x7FFF0008, bootHeapRegionStart = 0x400000,
             auxiliarySpace = 0x1000, openDynamicLibrary_arg = openDynamicLibrary,
             dlsym_arg = loadSymbol, argc_arg = 1, argv_arg = [''x''] \<rparr>"
  have run: "entry_call (fst (maxine linux ?w 1 [''x''] ''x'')) = Some (0x400100, ?args, ?m)"
    by (rule example_entry) simp
  have load: "loadImage (target_os linux) ?w ''x''
                = ([ImageLoad ''/opt/app/bin/maxine.vm''], Inr (example_image 16 4 3))"
    by (simp add: linux_def example_load)
  have tsize: "(16 :: Size) = vmThreadLocalsSize (image_header (example_image 16 4 3))"
    by (simp add: example_image_def)
  have auxSize: "(4 :: Size) = auxiliarySpaceSize (image_header (example_image 16 4 3))
                  + REFERENCE_BUFFER_SIZE linux"
    by (simp add: example_image_def REFERENCE_BUFFER_SIZE_def linux_def)
  have nowrap: "unat (16 :: Size) + 8 < 2 ^ 64"
    by simp
  have apart: "\<forall>x. x - alloca ?w (16 + sizeof_Address) < 16 + sizeof_Address
                  \<longrightarrow> \<not> x - malloc ?w 4 < 4"
    using example_apart by (simp add: example_world_def sizeof_Address_def)
  note claim = primordial_region_zero_filled [OF run load tsize auxSize nowrap apart]
  from claim have "?m (0x7FFF0008 + 15) = 0"
    by simp
  with claim load nowrap run show ?thesis
    by (simp add: primordial_byte_def)
qed

text \<open>
  C2, as stated, fails for a header with \<open>vmThreadLocalsSize = 5\<close>: rounded up to the
  next word boundary the size would be 8, but the loader zero-fills 5 bytes, and the
  byte at offset 5 of the region is still what memory held before, at the entry call.
\<close>

theorem primordial_region_not_rounded_up:
  "primordial_byte (fst (maxine linux (example_world (example_image 5 4 3)) 1 [''x''] ''x'')) 5
     = Some 0xAA
   \<and> (5 :: Size) < wordAlign 5
   \<and> Memset 0x7FFF0008 0 5
       \<in> set (fst (maxine linux (example_world (example_image 5 4 3)) 1 [''x''] ''x''))
   \<and> Memset 0x7FFF0008 0 (wordAlign 5)
       \<notin> set (fst (maxine linux (example_world (example_image 5 4 3)) 1 [''x''] ''x''))"
proof -
  let ?w = "example_world (example_image 5 4 3)"
  have run: "entry_call (fst (maxine linux ?w 1 [''x''] ''x'')) =
     Some (0x400100,
           \<lparr> primordialVmThreadLocals = 0x7FFF0008, bootHeapRegionStart = 0x400000,
             auxiliarySpace = 0x1000, openDynamicLibrary_arg = openDynamicLibrary,
             dlsym_arg = loadSymbol, argc_arg = 1, argv_arg = [''x''] \<rparr>,
           memset (memset (\<lambda>a. 0xAA) 0x7FFF0008 0 5) 0x1000 1 4)"
    by (rule example_entry) simp
  have byte: "primordial_byte (fst (maxine linux ?w 1 [''x''] ''x'')) 5 = Some 0xAA"
    by (simp add: primordial_byte_def run memset_at)
  have up: "wordAlign 5 = 8"
    by (simp add: wordAlign_def sizeof_Address_def)
  have trace: "fst (maxine linux ?w 1 [''x''] ''x'') =
     [ImageLoad ''/opt/app/bin/maxine.vm'', MessengerInitialize, ThreadsInitialize,
      Alloca 13, Memset 0x7FFF0008 0 5, Malloc 4, Memset 0x1000 1 4,
      CallRun 0x400100
           \<lparr> primordialVmThreadLocals = 0x7FFF0008, bootHeapRegionStart = 0x400000,
             auxiliarySpace = 0x1000, openDynamicLibrary_arg = openDynamicLibrary,
             dlsym_arg = loadSymbol, argc_arg = 1, argv_arg = [''x''] \<rparr>
           (memset (memset (\<lambda>a. 0xAA) 0x7FFF0008 0 5) 0x1000 1 4),
      Close 3, Println CouldNotCloseImage]"
    by (simp add: maxine_def linux_def example_load Let_def REFERENCE_BUFFER_SIZE_def)
       (simp add: example_world_def example_image_def example_align sizeof_Address_def)
  have events: "Memset 0x7FFF0008 0 5 \<in> set (fst (maxine linux ?w 1 [''x''] ''x''))"
    "Memset 0x7FFF0008 0 8 \<notin> set (fst (maxine linux ?w 1 [''x''] ''x''))"
    by (simp_all add: trace)
  from byte events show ?thesis
    by (simp add: up)
qed

subsection \<open>The auxiliary space\<close>

text \<open>
  C3. When the run reaches the entry call with a header whose \<open>auxiliarySpaceSize\<close> is
  positive: every byte of the auxiliary region handed over, of length
  \<open>auxiliarySpaceSize + REFERENCE_BUFFER_SIZE\<close>, holds the poison byte 1, which is not
  zero. That length is not zero unless the sum wraps around, and it is
  \<open>auxiliarySpaceSize\<close> in the build without card table verification; when it is not
  zero the region is the block \<open>malloc\<close> returned for that length, \<open>memset\<close> with 1 over
  that length.
\<close>

theorem auxiliary_space_poisoned:
  assumes run: "entry_call (fst (maxine b w argc argv exe)) = Some (method, args, m)"
    and load: "loadImage (target_os b) w exe = (es0, Inr img)"
    and positive: "0 < auxiliarySpaceSize (image_header img)"
    and auxSize: "auxSize = auxiliarySpaceSize (image_header img) + REFERENCE_BUFFER_SIZE b"
  shows "(\<forall>x. x - auxiliarySpace args < auxSize \<longrightarrow> m x = 1)
       \<and> (1 :: byte) \<noteq> 0
       \<and> (auxSize \<noteq> 0
            \<longrightarrow> auxiliarySpace args = malloc w auxSize
                \<and> auxiliarySpace args \<noteq> 0
                \<and> Malloc auxSize \<in> set (fst (maxine b w argc argv exe))
                \<and> Memset (auxiliarySpace args) 1 auxSize \<in> set (fst (maxine b w argc argv exe)))
       \<and> (unat (auxiliarySpaceSize (image_header img)) + unat (REFERENCE_BUFFER_SIZE b) < 2 ^ 64
            \<longrightarrow> auxSize \<noteq> 0)
       \<and> (\<not> ENABLE_CARD_TABLE_VERIFICATION b \<longrightarrow> auxSize = auxiliarySpaceSize (image_header img))"
proof -
  note facts = entry_reached [OF run load, folded auxSize]
  have size: "auxSize \<noteq> 0"
    if nowrap: "unat (auxiliarySpaceSize (image_header img)) + unat (REFERENCE_BUFFER_SIZE b) < 2 ^ 64"
  proof -
    have "unat auxSize
            = unat (auxiliarySpaceSize (image_header img)) + unat (REFERENCE_BUFFER_SIZE b)"
      using nowrap unfolding auxSize by (simp add: unat_word_ariths)
    moreover have "0 < unat (auxiliarySpaceSize (image_header img))"
      using positive by (simp add: word_less_nat_alt)
    ultimately have "unat auxSize \<noteq> 0" by arith
    then show ?thesis by auto
  qed
  have default: "auxSize = auxiliarySpaceSize (image_header img)"
    if "\<not> ENABLE_CARD_TABLE_VERIFICATION b"
    using that by (simp add: auxSize REFERENCE_BUFFER_SIZE_def)
  have addr: "auxiliarySpace args = malloc w auxSize \<and> auxiliarySpace args \<noteq> 0"
    if "auxSize \<noteq> 0"
    using that facts(4) by (simp add: facts(2))
  have events: "Malloc auxSize \<in> set (fst (maxine b w argc argv exe))
      \<and> Memset (auxiliarySpace args) 1 auxSize \<in> set (fst (maxine b w argc argv exe))"
    if "auxSize \<noteq> 0"
    using that by (simp add: facts(5) facts(2))
  have poison: "m x = 1" if "x - auxiliarySpace args < auxSize" for x
  proof -
    from that have "auxSize \<noteq> 0" by auto
    with that show ?thesis
      by (simp add: facts(3) facts(2) memset_at)
  qed
  have "(1 :: byte) \<noteq> 0" by simp
  with size default addr events poison show ?thesis
    by blast
qed

text \<open>
  C3 at the same run: the auxiliary region is the block of 4 bytes at 0x1000, and its byte
  at offset 3 holds 1 at the entry call.
\<close>

theorem auxiliary_space_poisoned_witness:
  "loadImage (target_os linux) (example_world (example_image 16 4 3)) ''x''
     = ([ImageLoad ''/opt/app/bin/maxine.vm''], Inr (example_image 16 4 3))
   \<and> 0 < auxiliarySpaceSize (image_header (example_image 16 4 3))
   \<and> auxiliary_byte (fst (maxine linux (example_world (example_image 16 4 3)) 1 [''x''] ''x'')) 3
       = Some 1
   \<and> Malloc 4 \<in> set (fst (maxine linux (example_world (example_image 16 4 3)) 1 [''x''] ''x''))
   \<and> Memset 0x1000 1 4
       \<in> set (fst (maxine linux (example_world (example_image 16 4 3)) 1 [''x''] ''x''))"
proof -
  let ?w = "example_world (example_image 16 4 3)"
  let ?m = "memset (memset (\<lambda>a. 0xAA) 0x7FFF0008 0 16) 0x1000 1 4"
  let ?args = "\<lparr> primordialVmThreadLocals = 0x7FFF0008, bootHeapRegionStart = 0x400000,
             auxiliarySpace = 0x1000, openDynamicLibrary_arg = openDynamicLibrary,
             dlsym_arg = loadSymbol, argc_arg = 1, argv_arg = [''x''] \<rparr>"
  have run: "entry_call (fst (maxine linux ?w 1 [''x''] ''x'')) = Some (0x400100, ?args, ?m)"
    by (rule example_entry) simp
  have load: "loadImage (target_os linux) ?w ''x''
                = ([ImageLoad ''/opt/app/bin/maxine.vm''], Inr (example_image 16 4 3))"
    by (simp add: linux_def example_load)
  have positive: "0 < auxiliarySpaceSize (image_header (example_image 16 4 3))"
    by (simp add: example_image_def)
  have auxSize: "(4 :: Size) = auxiliarySpaceSize (image_header (example_image 16 4 3))
                  + REFERENCE_BUFFER_SIZE linux"
    by (simp add: example_image_def REFERENCE_BUFFER_SIZE_def linux_def)
  note claim = auxiliary_space_poisoned [OF run load positive auxSize]
  from claim have "?m (0x1000 + 3) = 1"
    by simp
  with claim load positive run show ?thesis
    by (simp add: auxiliary_byte_def)
qed

text \<open>
  C4. With \<open>auxiliarySpaceSize = 0\<close> and card table verification off, once the image is
  loaded: the run calls \<open>malloc\<close> for no size, it reaches the entry call, the auxiliary
  address handed over is 0, and the run ends by returning the exit code of the entry
  call, not by a fatal exit.
\<close>

theorem no_auxiliary_space:
  assumes env: "\<not> (target_os b = DARWIN \<and> getenv w ''DYLD_FORCE_FLAT_NAMESPACE'' = None)"
    and load: "loadImage (target_os b) w exe = (es0, Inr img)"
    and zero: "auxiliarySpaceSize (image_header img) = 0"
    and off: "\<not> ENABLE_CARD_TABLE_VERIFICATION b"
  shows "(\<forall>n. Malloc n \<notin> set (fst (maxine b w argc argv exe)))
       \<and> map_option (\<lambda>(method, args, m). auxiliarySpace args)
            (entry_call (fst (maxine b w argc argv exe))) = Some 0
       \<and> (\<exists>exitCode. snd (maxine b w argc argv exe) = Returned exitCode)"
proof -
  have es0: "entry_call es0 = None" "\<forall>n. Malloc n \<notin> set es0"
    using loadImage_events [OF load] by auto
  have size: "auxiliarySpaceSize (image_header img) + REFERENCE_BUFFER_SIZE b = 0"
    using zero off by (simp add: REFERENCE_BUFFER_SIZE_def)
  show ?thesis
    using env load es0 size
    by (auto simp: maxine_def Let_def entry_call_append)
qed

text \<open>
  C4 at the example run with a header without auxiliary space: the address handed over
  is 0, where memory still holds 0xAA, and the run returns the -5 of the entry point.
\<close>

theorem no_auxiliary_space_witness:
  "\<not> (target_os linux = DARWIN
        \<and> getenv (example_world (example_image 16 0 3)) ''DYLD_FORCE_FLAT_NAMESPACE'' = None)
   \<and> loadImage (target_os linux) (example_world (example_image 16 0 3)) ''x''
       = ([ImageLoad ''/opt/app/bin/maxine.vm''], Inr (example_image 16 0 3))
   \<and> auxiliarySpaceSize (image_header (example_image 16 0 3)) = 0
   \<and> \<not> ENABLE_CARD_TABLE_VERIFICATION linux
   \<and> Malloc 16 \<notin> set (fst (maxine linux (example_world (example_image 16 0 3)) 1 [''x''] ''x''))
   \<and> auxiliary_byte (fst (maxine linux (example_world (example_image 16 0 3)) 1 [''x''] ''x'')) 0
       = Some 0xAA
   \<and> snd (maxine linux (example_world (example_image 16 0 3)) 1 [''x''] ''x'') = Returned (- 5)"
proof -
  let ?w = "example_world (example_image 16 0 3)"
  have env: "\<not> (target_os linux = DARWIN \<and> getenv ?w ''DYLD_FORCE_FLAT_NAMESPACE'' = None)"
    by (simp add: linux_def)
  have load: "loadImage (target_os linux) ?w ''x''
                = ([ImageLoad ''/opt/app/bin/maxine.vm''], Inr (example_image 16 0 3))"
    by (simp add: linux_def example_load)
  have zero: "auxiliarySpaceSize (image_header (example_image 16 0 3)) = 0"
    by (simp add: example_image_def)
  have off: "\<not> ENABLE_CARD_TABLE_VERIFICATION linux"
    by (simp add: linux_def)
  note claim = no_auxiliary_space [OF env load zero off, of 1 "[''x'']"]
  have byte: "auxiliary_byte (fst (maxine linux ?w 1 [''x''] ''x'')) 0 = Some 0xAA"
    by (simp add: auxiliary_byte_def example_entry_no_aux memset_at)
  have ret: "snd (maxine linux ?w 1 [''x''] ''x'') = Returned (- 5)"
    by (simp add: maxine_def linux_def example_load Let_def REFERENCE_BUFFER_SIZE_def)
       (simp add: example_world_def example_image_def)
  from claim env load zero off byte ret show ?thesis
    by simp
qed

subsection \<open>The entry call and the exit code\<close>

text \<open>
  C5. The address called is \<open>image_heap() + vmRunMethodOffset\<close>, the run holds one entry
  call only, and of two runs that reach their entry call, with the same offset the
  addresses differ by the difference of the heap bases, and with the same heap base by
  the difference of the offsets.
\<close>

theorem entry_point_address:
  assumes run: "entry_call (fst (maxine b w argc argv exe)) = Some (method, args, m)"
    and load: "loadImage (target_os b) w exe = (es0, Inr img)"
    and run': "entry_call (fst (maxine b' w' argc' argv' exe')) = Some (method', args', m')"
    and load': "loadImage (target_os b') w' exe' = (es0', Inr img')"
  shows "method = image_heap img + vmRunMethodOffset (image_header img)
       \<and> filter is_CallRun (fst (maxine b w argc argv exe)) = [CallRun method args m]
       \<and> (vmRunMethodOffset (image_header img') = vmRunMethodOffset (image_header img)
            \<longrightarrow> method' - method = image_heap img' - image_heap img)
       \<and> (image_heap img' = image_heap img
            \<longrightarrow> method' - method
                  = vmRunMethodOffset (image_header img') - vmRunMethodOffset (image_header img))"
proof -
  note facts = entry_reached [OF run load]
  note facts' = entry_reached [OF run' load']
  have once: "filter is_CallRun (fst (maxine b w argc argv exe)) = [CallRun method args m]"
    using loadImage_events [OF load] by (auto simp: facts(5))
  from facts(1) facts'(1) once show ?thesis
    by simp
qed

text \<open>
  C5 at two example runs whose heap bases lie 0x2000 apart.
\<close>

theorem entry_point_address_witness:
  "loadImage (target_os linux) (example_world (example_image 16 4 3)) ''x''
     = ([ImageLoad ''/opt/app/bin/maxine.vm''], Inr (example_image 16 4 3))
   \<and> loadImage (target_os linux)
        (example_world ((example_image 16 4 3)\<lparr> image_heap := 0x402000 \<rparr>)) ''x''
       = ([ImageLoad ''/opt/app/bin/maxine.vm''],
          Inr ((example_image 16 4 3)\<lparr> image_heap := 0x402000 \<rparr>))
   \<and> map_option fst
        (entry_call (fst (maxine linux (example_world (example_image 16 4 3)) 1 [''x''] ''x'')))
       = Some (0x400000 + 0x100)
   \<and> map_option fst
        (entry_call (fst (maxine linux
           (example_world ((example_image 16 4 3)\<lparr> image_heap := 0x402000 \<rparr>)) 1 [''x''] ''x'')))
       = Some (0x400000 + 0x100 + 0x2000)
   \<and> length (filter is_CallRun
        (fst (maxine linux (example_world (example_image 16 4 3)) 1 [''x''] ''x''))) = 1"
proof -
  let ?img = "example_image 16 4 3"
  let ?img' = "(example_image 16 4 3)\<lparr> image_heap := 0x402000 \<rparr>"
  obtain target targs tm
    where run: "entry_call (fst (maxine linux (example_world ?img) 1 [''x''] ''x''))
                  = Some (target, targs, tm)"
    by (simp add: example_entry_of example_image_def)
  obtain target' targs' tm'
    where run': "entry_call (fst (maxine linux (example_world ?img') 1 [''x''] ''x''))
                   = Some (target', targs', tm')"
    by (simp add: example_entry_of example_image_def)
  have load: "loadImage (target_os linux) (example_world ?img) ''x''
                = ([ImageLoad ''/opt/app/bin/maxine.vm''], Inr ?img)"
    by (simp add: linux_def example_load)
  have load': "loadImage (target_os linux) (example_world ?img') ''x''
                = ([ImageLoad ''/opt/app/bin/maxine.vm''], Inr ?img')"
    by (simp add: linux_def example_load)
  note claim = entry_point_address [OF run load run' load']
  from claim [THEN conjunct1] have addr: "target = 0x400000 + 0x100"
    by (simp add: example_image_def)
  from claim [THEN conjunct2, THEN conjunct2, THEN conjunct1]
  have delta: "target' - target = 0x2000"
    by (simp add: example_image_def)
  have "target' = (target' - target) + target"
    by simp
  then have "target' = 0x2000 + target"
    by (simp only: delta)
  with addr have addr': "target' = 0x400000 + 0x100 + 0x2000"
    by simp
  from claim [THEN conjunct2, THEN conjunct1]
  have once: "length (filter is_CallRun
        (fst (maxine linux (example_world ?img) 1 [''x''] ''x''))) = 1"
    by simp
  from load load' addr addr' once show ?thesis
    by (simp add: run run')
qed

text \<open>
  C6. Whatever 32-bit value \<open>v\<close> the entry function returns, \<open>maxine\<close> returns \<open>v\<close>; when
  closing the image file afterwards fails, the run closes, prints the warning and
  returns \<open>v\<close> all the same.
\<close>

theorem exit_code_passed_through:
  assumes run: "entry_call (fst (maxine b w argc argv exe)) = Some (method, args, m)"
    and load: "loadImage (target_os b) w exe = (es0, Inr img)"
    and ret: "code_at w method args m = v"
  shows "snd (maxine b w argc argv exe) = Returned v
       \<and> (0 < image_fd img \<and> close w (image_fd img) \<noteq> 0
            \<longrightarrow> after_entry (fst (maxine b w argc argv exe))
                  = [Close (image_fd img), Println CouldNotCloseImage])"
proof -
  note facts = entry_reached [OF run load]
  have es0: "entry_call es0 = None"
    using loadImage_events [OF load] by auto
  have "snd (maxine b w argc argv exe) = Returned v"
    using facts(6) ret by simp
  moreover have "after_entry (fst (maxine b w argc argv exe))
                  = [Close (image_fd img), Println CouldNotCloseImage]"
    if "0 < image_fd img" and "close w (image_fd img) \<noteq> 0"
    using that es0 by (simp add: facts(5) after_entry_append)
  ultimately show ?thesis by blast
qed

text \<open>
  C6 at the example run: the entry point returns -5, closing descriptor 3 fails, and
  \<open>maxine\<close> returns -5 after the warning.
\<close>

theorem exit_code_passed_through_witness:
  "loadImage (target_os linux) (example_world (example_image 16 4 3)) ''x''
     = ([ImageLoad ''/opt/app/bin/maxine.vm''], Inr (example_image 16 4 3))
   \<and> 0 < image_fd (example_image 16 4 3)
   \<and> close (example_world (example_image 16 4 3)) (image_fd (example_image 16 4 3)) \<noteq> 0
   \<and> snd (maxine linux (example_world (example_image 16 4 3)) 1 [''x''] ''x'') = Returned (- 5)
   \<and> sint (- 5 :: jint) = - 5
   \<and> after_entry (fst (maxine linux (example_world (example_image 16 4 3)) 1 [''x''] ''x''))
       = [Close 3, Println CouldNotCloseImage]"
proof -
  let ?w = "example_world (example_image 16 4 3)"
  let ?m = "memset (memset (\<lambda>a. 0xAA) 0x7FFF0008 0 16) 0x1000 1 4"
  let ?args = "\<lparr> primordialVmThreadLocals = 0x7FFF0008, bootHeapRegionStart = 0x400000,
             auxiliarySpace = 0x1000, openDynamicLibrary_arg = openDynamicLibrary,
             dlsym_arg = loadSymbol, argc_arg = 1, argv_arg = [''x''] \<rparr>"
  have run: "entry_call (fst (maxine linux ?w 1 [''x''] ''x'')) = Some (0x400100, ?args, ?m)"
    by (rule example_entry) simp
  have load: "loadImage (target_os linux) ?w ''x''
                = ([ImageLoad ''/opt/app/bin/maxine.vm''], Inr (example_image 16 4 3))"
    by (simp add: linux_def example_load)
  have ret: "code_at ?w 0x400100 ?args ?m = - 5"
    by (simp add: example_world_def)
  have fd: "0 < image_fd (example_image 16 4 3)"
    "close ?w (image_fd (example_image 16 4 3)) \<noteq> 0"
    "image_fd (example_image 16 4 3) = 3"
    by (simp_all add: example_image_def example_world_def)
  note claim = exit_code_passed_through [OF run load ret]
  from claim fd load show ?thesis
    by simp
qed

text \<open>
  C10. A descriptor is closed only if it is the one \<open>image_load\<close> returned and it is
  greater than zero. With a descriptor of zero or below nothing happens after the entry
  call and no warning is printed; with a descriptor above zero it is closed after the
  entry call.
\<close>

theorem image_file_closed_when_positive:
  assumes run: "entry_call (fst (maxine b w argc argv exe)) = Some (method, args, m)"
    and load: "loadImage (target_os b) w exe = (es0, Inr img)"
  shows "(\<forall>f. Close f \<in> set (fst (maxine b w argc argv exe)) \<longrightarrow> f = image_fd img \<and> 0 < f)
       \<and> (image_fd img \<le> 0
            \<longrightarrow> after_entry (fst (maxine b w argc argv exe)) = []
                \<and> Println CouldNotCloseImage \<notin> set (fst (maxine b w argc argv exe)))
       \<and> (0 < image_fd img \<longrightarrow> Close (image_fd img) \<in> set (after_entry (fst (maxine b w argc argv exe))))"
proof -
  note facts = entry_reached [OF run load]
  have es0: "entry_call es0 = None" "\<forall>f. Close f \<notin> set es0"
    "Println CouldNotCloseImage \<notin> set es0"
    using loadImage_events [OF load] by auto
  have 1: "f = image_fd img \<and> 0 < f" if "Close f \<in> set (fst (maxine b w argc argv exe))" for f
    using that es0 by (auto simp: facts(5) split: if_splits)
  have 2: "after_entry (fst (maxine b w argc argv exe)) = []
           \<and> Println CouldNotCloseImage \<notin> set (fst (maxine b w argc argv exe))"
    if "image_fd img \<le> 0"
    using that es0 by (simp add: facts(5) after_entry_append)
  have 3: "Close (image_fd img) \<in> set (after_entry (fst (maxine b w argc argv exe)))"
    if "0 < image_fd img"
    using that es0 by (simp add: facts(5) after_entry_append)
  from 1 2 3 show ?thesis by blast
qed

text \<open>
  C10 at the example runs with descriptor 0 and with descriptor 3.
\<close>

theorem image_file_closed_when_positive_witness:
  "loadImage (target_os linux) (example_world (example_image 16 4 0)) ''x''
     = ([ImageLoad ''/opt/app/bin/maxine.vm''], Inr (example_image 16 4 0))
   \<and> image_fd (example_image 16 4 0) \<le> 0
   \<and> after_entry (fst (maxine linux (example_world (example_image 16 4 0)) 1 [''x''] ''x'')) = []
   \<and> Close 0 \<notin> set (fst (maxine linux (example_world (example_image 16 4 0)) 1 [''x''] ''x''))
   \<and> 0 < image_fd (example_image 16 4 3)
   \<and> Close 3 \<in> set (after_entry
         (fst (maxine linux (example_world (example_image 16 4 3)) 1 [''x''] ''x'')))"
proof -
  let ?wa = "example_world (example_image 16 4 0)"
  let ?wd = "example_world (example_image 16 4 3)"
  let ?m = "memset (memset (\<lambda>a. 0xAA) 0x7FFF0008 0 16) 0x1000 1 4"
  let ?args = "\<lparr> primordialVmThreadLocals = 0x7FFF0008, bootHeapRegionStart = 0x400000,
             auxiliarySpace = 0x1000, openDynamicLibrary_arg = openDynamicLibrary,
             dlsym_arg = loadSymbol, argc_arg = 1, argv_arg = [''x''] \<rparr>"
  have run0: "entry_call (fst (maxine linux ?wa 1 [''x''] ''x'')) = Some (0x400100, ?args, ?m)"
    by (rule example_entry) simp
  have run3: "entry_call (fst (maxine linux ?wd 1 [''x''] ''x'')) = Some (0x400100, ?args, ?m)"
    by (rule example_entry) simp
  have load0: "loadImage (target_os linux) ?wa ''x''
                = ([ImageLoad ''/opt/app/bin/maxine.vm''], Inr (example_image 16 4 0))"
    by (simp add: linux_def example_load)
  have load3: "loadImage (target_os linux) ?wd ''x''
                = ([ImageLoad ''/opt/app/bin/maxine.vm''], Inr (example_image 16 4 3))"
    by (simp add: linux_def example_load)
  have fd: "image_fd (example_image 16 4 0) = 0" "image_fd (example_image 16 4 3) = 3"
    by (simp_all add: example_image_def)
  note claim0 = image_file_closed_when_positive [OF run0 load0]
  note claim3 = image_file_closed_when_positive [OF run3 load3]
  from claim0 fd have a: "after_entry (fst (maxine linux ?wa 1 [''x''] ''x'')) = []"
    by simp
  from claim0 fd have b: "Close 0 \<notin> set (fst (maxine linux ?wa 1 [''x''] ''x''))"
    by auto
  from claim3 fd have c: "Close 3 \<in> set (after_entry (fst (maxine linux ?wd 1 [''x''] ''x'')))"
    by simp
  from load0 fd a b c show ?thesis
    by simp
qed

subsection \<open>Fatal exits\<close>

text \<open>
  C9. \<open>native_trap_exit\<close> ends the process with the status it is given, for every address
  and whatever \<open>dladdr\<close> answers, and the last line it prints is the trap at the raw
  address. When no module owns the address that line is all it prints; with a module
  it prints the module first, and the symbol with the offset when there is one.
\<close>

theorem trap_exit_status:
  "snd (native_trap_exit w code address) = Exited code
   \<and> last (fst (native_trap_exit w code address)) = Println (TrapAt address)
   \<and> (dladdr w address = None
        \<longrightarrow> fst (native_trap_exit w code address) = [Println (TrapAt address)])
   \<and> (\<forall>info. dladdr w address = Some info \<and> dli_sname info = None
        \<longrightarrow> fst (native_trap_exit w code address)
              = [Println (InModule (dli_fname info) (dli_fbase info)), Println (TrapAt address)])
   \<and> (\<forall>info sname. dladdr w address = Some info \<and> dli_sname info = Some sname
        \<longrightarrow> fst (native_trap_exit w code address)
              = [Println (InSymbol (dli_fname info) (dli_fbase info) sname (dli_saddr info)
                           (address - dli_saddr info)),
                 Println (TrapAt address)])"
  by (simp add: native_trap_exit_def after_def log_exit_def split: option.splits)

text \<open>
  C9 at an address no module owns and at an address inside a symbol of the example
  world.
\<close>

theorem trap_exit_status_witness:
  "dladdr (example_world (example_image 16 4 3)) 0x55 = None
   \<and> native_trap_exit (example_world (example_image 16 4 3)) 7 0x55
       = ([Println (TrapAt 0x55)], Exited 7)
   \<and> dladdr (example_world (example_image 16 4 3)) 0x500010
       = Some \<lparr> dli_fname = ''libjvm.so'', dli_fbase = 0x500000,
                dli_sname = Some ''JVM_Halt'', dli_saddr = 0x500008 \<rparr>
   \<and> native_trap_exit (example_world (example_image 16 4 3)) (- 3) 0x500010
       = ([Println (InSymbol ''libjvm.so'' 0x500000 ''JVM_Halt'' 0x500008 8),
           Println (TrapAt 0x500010)], Exited (- 3))"
proof -
  let ?w = "example_world (example_image 16 4 3)"
  let ?info = "\<lparr> dli_fname = ''libjvm.so'', dli_fbase = 0x500000,
                dli_sname = Some ''JVM_Halt'', dli_saddr = 0x500008 \<rparr>"
  have none: "dladdr ?w 0x55 = None"
    by (simp add: example_world_def)
  have some: "dladdr ?w 0x500010 = Some ?info"
    by (simp add: example_world_def)
  from trap_exit_status [of ?w 7 "0x55"] none
  have 1: "native_trap_exit ?w 7 0x55 = ([Println (TrapAt 0x55)], Exited 7)"
    by (simp add: prod_eq_iff)
  from trap_exit_status [of ?w "- 3" "0x500010"] some
  have 2: "native_trap_exit ?w (- 3) 0x500010
       = ([Println (InSymbol ''libjvm.so'' 0x500000 ''JVM_Halt'' 0x500008 8),
           Println (TrapAt 0x500010)], Exited (- 3))"
    by (simp add: prod_eq_iff)
  from none some 1 2 show ?thesis
    by simp
qed

text \<open>
  C1, as amended. On Darwin a missing \<open>DYLD_FORCE_FLAT_NAMESPACE\<close> ends the process with
  status 11 before anything else happens. An unreadable self-path ends it with status 1,
  and so does a failed allocation of the auxiliary space. When \<open>image_load\<close> ends the
  process, the status is the one \<open>image_load\<close> chose.
\<close>

theorem fatal_exit_codes:
  "(target_os b = DARWIN \<and> getenv w ''DYLD_FORCE_FLAT_NAMESPACE'' = None
      \<longrightarrow> maxine b w argc argv exe
            = ([Println (MustBeDefined ''DYLD_FORCE_FLAT_NAMESPACE'')], Exited 11))
   \<and> (\<not> (target_os b = DARWIN \<and> getenv w ''DYLD_FORCE_FLAT_NAMESPACE'' = None)
       \<and> (target_os b = DARWIN \<and> realpath_of w exe = None
          \<or> target_os b = LINUX \<and> readlink_of w ''/proc/self/exe'' = None
          \<or> target_os b = SOLARIS \<and> readlink_of w ''/proc/self/path/a.out'' = None)
      \<longrightarrow> snd (maxine b w argc argv exe) = Exited 1)
   \<and> (\<not> (target_os b = DARWIN \<and> getenv w ''DYLD_FORCE_FLAT_NAMESPACE'' = None)
       \<and> getImageFilePath (target_os b) w exe (stack w) = Inr imageFilePath
       \<and> image_load w (cstring imageFilePath) = Inl (ProcessExit code msg)
      \<longrightarrow> snd (maxine b w argc argv exe) = Exited code)
   \<and> (\<not> (target_os b = DARWIN \<and> getenv w ''DYLD_FORCE_FLAT_NAMESPACE'' = None)
       \<and> loadImage (target_os b) w exe = (es0, Inr img)
       \<and> auxiliarySpaceSize (image_header img) + REFERENCE_BUFFER_SIZE b \<noteq> 0
       \<and> malloc w (auxiliarySpaceSize (image_header img) + REFERENCE_BUFFER_SIZE b) = 0
      \<longrightarrow> snd (maxine b w argc argv exe) = Exited 1)"
proof (intro conjI impI)
  assume "target_os b = DARWIN \<and> getenv w ''DYLD_FORCE_FLAT_NAMESPACE'' = None"
  then show "maxine b w argc argv exe
            = ([Println (MustBeDefined ''DYLD_FORCE_FLAT_NAMESPACE'')], Exited 11)"
    by (simp add: maxine_def log_exit_def)
next
  assume a: "\<not> (target_os b = DARWIN \<and> getenv w ''DYLD_FORCE_FLAT_NAMESPACE'' = None)
       \<and> (target_os b = DARWIN \<and> realpath_of w exe = None
          \<or> target_os b = LINUX \<and> readlink_of w ''/proc/self/exe'' = None
          \<or> target_os b = SOLARIS \<and> readlink_of w ''/proc/self/path/a.out'' = None)"
  then have "\<exists>msg. getExecutablePath (target_os b) w exe (stack w) = Inl (ProcessExit 1 msg)"
    by (auto simp: getExecutablePath_def realpath_def readlink_def)
  then have "\<exists>msg. loadImage (target_os b) w exe = ([], Inl (ProcessExit 1 msg))"
    using a by (auto simp: loadImage_def getImageFilePath_def)
  with a show "snd (maxine b w argc argv exe) = Exited 1"
    by (auto simp: maxine_def after_def)
next
  assume a: "\<not> (target_os b = DARWIN \<and> getenv w ''DYLD_FORCE_FLAT_NAMESPACE'' = None)
       \<and> getImageFilePath (target_os b) w exe (stack w) = Inr imageFilePath
       \<and> image_load w (cstring imageFilePath) = Inl (ProcessExit code msg)"
  then have "loadImage (target_os b) w exe
               = ([ImageLoad (cstring imageFilePath)], Inl (ProcessExit code msg))"
    by (simp add: loadImage_def)
  with a show "snd (maxine b w argc argv exe) = Exited code"
    by (auto simp: maxine_def after_def)
next
  assume "\<not> (target_os b = DARWIN \<and> getenv w ''DYLD_FORCE_FLAT_NAMESPACE'' = None)
       \<and> loadImage (target_os b) w exe = (es0, Inr img)
       \<and> auxiliarySpaceSize (image_header img) + REFERENCE_BUFFER_SIZE b \<noteq> 0
       \<and> malloc w (auxiliarySpaceSize (image_header img) + REFERENCE_BUFFER_SIZE b) = 0"
  then show "snd (maxine b w argc argv exe) = Exited 1"
    by (auto simp: maxine_def after_def log_exit_def Let_def)
qed

text \<open>
  The amended C1 at four example runs, one for each fatal condition.
\<close>

theorem fatal_exit_codes_witness:
  "target_os darwin = DARWIN
   \<and> getenv ((example_world (example_image 16 4 3))\<lparr> getenv := (\<lambda>name. None) \<rparr>)
         ''DYLD_FORCE_FLAT_NAMESPACE'' = None
   \<and> snd (maxine darwin ((example_world (example_image 16 4 3))\<lparr> getenv := (\<lambda>name. None) \<rparr>)
            1 [''x''] ''x'') = Exited 11
   \<and> target_os linux = LINUX
   \<and> readlink_of ((example_world (example_image 16 4 3))\<lparr> readlink_of := (\<lambda>linkName. None) \<rparr>)
         ''/proc/self/exe'' = None
   \<and> snd (maxine linux ((example_world (example_image 16 4 3))\<lparr> readlink_of := (\<lambda>linkName. None) \<rparr>)
            1 [''x''] ''x'') = Exited 1
   \<and> image_load ((example_world (example_image 16 4 3))
                   \<lparr> image_load := (\<lambda>path. Inl (ProcessExit 2 (ImageMessage path))) \<rparr>)
         ''/opt/app/bin/maxine.vm'' = Inl (ProcessExit 2 (ImageMessage ''/opt/app/bin/maxine.vm''))
   \<and> snd (maxine linux ((example_world (example_image 16 4 3))
                          \<lparr> image_load := (\<lambda>path. Inl (ProcessExit 2 (ImageMessage path))) \<rparr>)
            1 [''x''] ''x'') = Exited 2
   \<and> malloc ((example_world (example_image 16 4 3))\<lparr> malloc := (\<lambda>n. 0) \<rparr>) 4 = 0
   \<and> snd (maxine linux ((example_world (example_image 16 4 3))\<lparr> malloc := (\<lambda>n. 0) \<rparr>)
            1 [''x''] ''x'') = Exited 1"
proof -
  let ?w = "example_world (example_image 16 4 3)"
  let ?wa = "?w\<lparr> getenv := (\<lambda>name. None) \<rparr>"
  let ?wb = "?w\<lparr> readlink_of := (\<lambda>linkName. None) \<rparr>"
  let ?wc = "?w\<lparr> image_load := (\<lambda>path. Inl (ProcessExit 2 (ImageMessage path))) \<rparr>"
  let ?wd = "?w\<lparr> malloc := (\<lambda>n. 0) \<rparr>"
  let ?buf = "''/opt/app/bin/maxine.vm'' @ NUL # ''#########''"
  have os: "target_os darwin = DARWIN" "target_os linux = LINUX"
    by (simp_all add: darwin_def linux_def)
  have env: "getenv ?wa ''DYLD_FORCE_FLAT_NAMESPACE'' = None"
    by simp
  from fatal_exit_codes [where b = darwin and w = ?wa and argc = 1 and argv = "[''x'']" and exe = "''x''"]
    os env
  have 1: "snd (maxine darwin ?wa 1 [''x''] ''x'') = Exited 11"
    by simp
  have link: "readlink_of ?wb ''/proc/self/exe'' = None"
    by simp
  from fatal_exit_codes [where b = linux and w = ?wb and argc = 1 and argv = "[''x'']" and exe = "''x''"]
    os link
  have 2: "snd (maxine linux ?wb 1 [''x''] ''x'') = Exited 1"
    by simp
  have path: "getImageFilePath (target_os linux) ?wc ''x'' (stack ?wc) = Inr ?buf"
    by (simp add: path_defs example_world_def chop.simps linux_def)
  have name: "cstring ?buf = ''/opt/app/bin/maxine.vm''"
    by (simp add: cstring_def NUL_def)
  have image: "image_load ?wc ''/opt/app/bin/maxine.vm''
                 = Inl (ProcessExit 2 (ImageMessage ''/opt/app/bin/maxine.vm''))"
    by simp
  from fatal_exit_codes [where b = linux and w = ?wc and argc = 1 and argv = "[''x'']" and exe = "''x''"
      and imageFilePath = ?buf and code = 2 and msg = "ImageMessage ''/opt/app/bin/maxine.vm''"]
    os path name image
  have 3: "snd (maxine linux ?wc 1 [''x''] ''x'') = Exited 2"
    by simp
  have load: "loadImage (target_os linux) ?wd ''x''
                = ([ImageLoad ''/opt/app/bin/maxine.vm''], Inr (example_image 16 4 3))"
    by (simp add: path_defs example_world_def chop.simps linux_def)
  have size: "auxiliarySpaceSize (image_header (example_image 16 4 3)) + REFERENCE_BUFFER_SIZE linux = 4"
    by (simp add: example_image_def REFERENCE_BUFFER_SIZE_def linux_def)
  have null: "malloc ?wd 4 = 0"
    by simp
  from fatal_exit_codes [where b = linux and w = ?wd and argc = 1 and argv = "[''x'']" and exe = "''x''"
      and img = "example_image 16 4 3" and ?es0.0 = "[ImageLoad ''/opt/app/bin/maxine.vm'']"]
    os load size null
  have 4: "snd (maxine linux ?wd 1 [''x''] ''x'') = Exited 1"
    by simp
  from os env 1 link 2 image 3 null 4 show ?thesis
    by simp
qed

text \<open>
  C1, as stated, fails: on Linux an unreadable \<open>/proc/self/exe\<close> and a failed \<open>malloc\<close>
  of the auxiliary space end the process with the same status, 1.
\<close>

theorem fatal_exit_codes_coincide:
  "snd (maxine linux ((example_world (example_image 16 4 3))\<lparr> readlink_of := (\<lambda>linkName. None) \<rparr>)
          1 [''x''] ''x'') = Exited 1
   \<and> snd (maxine linux ((example_world (example_image 16 4 3))\<lparr> malloc := (\<lambda>n. 0) \<rparr>)
          1 [''x''] ''x'') = Exited 1"
  by (simp add: maxine_def linux_def Let_def REFERENCE_BUFFER_SIZE_def path_defs chop.simps
      after_def log_exit_def example_world_def example_image_def)

end
